theory Spec2Isabelle
  imports Complex_Main "HOL-Library.AList"
begin

section \<open>Values of the host platform\<close>

text \<open>
  The integration runs inside a home-automation host. Entity identifiers, areas and the
  state strings of entities are Python strings. A time of day is a naive
  \<^verbatim>\<open>datetime.time\<close>, compared field by field (hour, minute, second, microsecond).
\<close>

type_synonym entity_id = string

datatype pytime = Time nat nat nat nat

fun time_le :: "pytime \<Rightarrow> pytime \<Rightarrow> bool" where
  "time_le (Time h1 m1 s1 u1) (Time h2 m2 s2 u2) =
     (h1 < h2 \<or> (h1 = h2 \<and> (m1 < m2 \<or> (m1 = m2 \<and> (s1 < s2 \<or> (s1 = s2 \<and> u1 \<le> u2))))))"

text \<open>
  The result of Python's \<^verbatim>\<open>float(s)\<close>: a finite number, an infinity or a NaN. The
  threshold of the configuration is a finite number; \<^verbatim>\<open>x > threshold\<close> is false for a
  NaN.
\<close>

datatype pyfloat = Finite real | PosInf | NegInf | NaN

fun float_gt :: "pyfloat \<Rightarrow> real \<Rightarrow> bool" where
  "float_gt (Finite x) t = (t < x)"
| "float_gt PosInf t = True"
| "float_gt NegInf t = False"
| "float_gt NaN t = False"

datatype error = TypeError | KeyError | ActionFailure | CancelledError

text \<open>
  What the manager reads from its host when a handler runs: the clock
  (\<^verbatim>\<open>dt_util.now().time()\<close>), the host's parser of time strings
  (\<^verbatim>\<open>dt_util.parse_time\<close>, \<open>None\<close> for a string that is not a time), the state
  machine (\<^verbatim>\<open>hass.states.get(id)\<close>, giving the state string of an entity, \<open>None\<close> for an
  unknown entity) and Python's \<^verbatim>\<open>float\<close> (\<open>None\<close> where it raises ValueError). None
  of the four is code of the integration, so they are parameters of the model.
\<close>

record host =
  now_time :: pytime
  parse_time :: "string \<Rightarrow> pytime option"
  states_get :: "entity_id \<Rightarrow> string option"
  to_float :: "string \<Rightarrow> pyfloat option"

section \<open>Configuration and runtime state\<close>

text \<open>
  \<^verbatim>\<open>entry.data\<close>: the keys read with \<^verbatim>\<open>.get(key, default)\<close> are optional. A time slot is
  a dictionary with the two keys \<^verbatim>\<open>start_time\<close> and \<^verbatim>\<open>end_time\<close>, both strings.
\<close>

type_synonym slot = "string \<times> string"

record config =
  area :: string
  lights :: "entity_id list"
  motion_sensors :: "entity_id list"
  illuminance_sensors :: "entity_id list option"
  illuminance_threshold :: "real option"
  delay :: "int option"
  time_slots :: "slot list option"

definition DEFAULT_DELAY :: int where
  "DEFAULT_DELAY = 180"

definition DEFAULT_ILLUMINANCE_THRESHOLD :: real where
  "DEFAULT_ILLUMINANCE_THRESHOLD = 10"

definition STATE_ON :: string where
  "STATE_ON = ''on''"

text \<open>\<^verbatim>\<open>entry.data.get(CONF_TIME_SLOTS, [])\<close>\<close>

definition get_time_slots :: "config \<Rightarrow> slot list" where
  "get_time_slots c = (case time_slots c of None \<Rightarrow> [] | Some l \<Rightarrow> l)"

text \<open>Events fired on the bus and calls of external services, in the order they happen.\<close>

datatype bus_event =
    RestorationTriggered string
  | RestorationCancelled string
  | TimeSlotAdded string slot
  | TimeSlotRemoved string slot

datatype action =
    RestoreState "entity_id list"
  | TurnOff entity_id
  | Fire bus_event

text \<open>
  The two coroutines of the manager that suspend: the off-delay timer of a motion sensor
  and the restoration. A task is suspended in \<^verbatim>\<open>asyncio.sleep\<close> or in the external
  service call number \<open>k\<close> it has issued, or it is done (with the exception it raised, if
  any). \<^verbatim>\<open>Task.cancel()\<close> marks a task that is not done; the mark is delivered as a
  CancelledError at the await where the task is suspended, when the task is next resumed.
  A task is modelled from its first suspension on: creating it runs its body up to there.
\<close>

datatype coroutine = DelayTimer entity_id | RestoreLights

datatype phase = Sleeping | AwaitingCall nat | Done "error option"

record task =
  coro :: coroutine
  phase :: phase
  cancel_requested :: bool

text \<open>
  The manager object. \<open>motion_active\<close> and \<open>restore_timers\<close> are the two dictionaries
  (association lists, in insertion order); a timer handle is the index of its task in
  \<open>tasks\<close>, the tasks this manager has created on the event loop.
\<close>

record manager =
  entry_data :: config
  m_area :: string
  enabled :: bool
  motion_active :: "(entity_id \<times> bool) list"
  restore_timers :: "(entity_id \<times> nat) list"
  tasks :: "task list"
  effects :: "action list"

definition emit :: "action \<Rightarrow> manager \<Rightarrow> manager" where
  "emit a st = st\<lparr>effects := effects st @ [a]\<rparr>"

definition create_task :: "coroutine \<Rightarrow> phase \<Rightarrow> manager \<Rightarrow> manager" where
  "create_task c p st =
     st\<lparr>tasks := tasks st @ [\<lparr>coro = c, phase = p, cancel_requested = False\<rparr>]\<rparr>"

definition is_done :: "phase \<Rightarrow> bool" where
  "is_done p = (case p of Done r \<Rightarrow> True | _ \<Rightarrow> False)"

definition cancel :: "nat \<Rightarrow> manager \<Rightarrow> manager" where
  "cancel tid st =
     (if tid < length (tasks st) \<and> \<not> is_done (phase (tasks st ! tid))
      then st\<lparr>tasks := (tasks st)[tid := (tasks st ! tid)\<lparr>cancel_requested := True\<rparr>]\<rparr>
      else st)"

definition set_phase :: "nat \<Rightarrow> phase \<Rightarrow> manager \<Rightarrow> manager" where
  "set_phase tid p st = st\<lparr>tasks := (tasks st)[tid := (tasks st ! tid)\<lparr>phase := p\<rparr>]\<rparr>"

text \<open>\<^verbatim>\<open>__init__\<close> and the part of \<^verbatim>\<open>async_setup\<close> that fills \<open>motion_active\<close>.\<close>

definition new_manager :: "config \<Rightarrow> manager" where
  "new_manager c =
     \<lparr>entry_data = c, m_area = area c, enabled = True, motion_active = [],
      restore_timers = [], tasks = [], effects = []\<rparr>"

definition async_setup :: "manager \<Rightarrow> manager" where
  "async_setup st =
     st\<lparr>motion_active :=
          foldl (\<lambda>m sensor_id. AList.update sensor_id False m) (motion_active st)
            (motion_sensors (entry_data st))\<rparr>"

section \<open>The guards of a restoration\<close>

text \<open>
  \<^verbatim>\<open>_is_in_active_time_slot\<close>: both strings of a slot are parsed, then
  \<^verbatim>\<open>start <= current_time <= end\<close> is evaluated left to right. Comparing \<^verbatim>\<open>None\<close> with a
  time raises TypeError; the second comparison is only made when the first holds.
\<close>

fun in_any_slot :: "(string \<Rightarrow> pytime option) \<Rightarrow> pytime \<Rightarrow> slot list \<Rightarrow> error + bool" where
  "in_any_slot parse t [] = Inr False"
| "in_any_slot parse t ((s, e) # rest) =
     (case parse s of
        None \<Rightarrow> Inl TypeError
      | Some start \<Rightarrow>
          if time_le start t then
            (case parse e of
               None \<Rightarrow> Inl TypeError
             | Some end \<Rightarrow> if time_le t end then Inr True else in_any_slot parse t rest)
          else in_any_slot parse t rest)"

definition is_in_active_time_slot :: "host \<Rightarrow> manager \<Rightarrow> error + bool" where
  "is_in_active_time_slot h st =
     in_any_slot (parse_time h) (now_time h) (get_time_slots (entry_data st))"

text \<open>
  \<^verbatim>\<open>_check_illuminance\<close>: a sensor without state and a state that is not a number are
  skipped; the first reading above the threshold ends the loop with False.
\<close>

fun none_too_bright :: "host \<Rightarrow> real \<Rightarrow> entity_id list \<Rightarrow> bool" where
  "none_too_bright h threshold [] = True"
| "none_too_bright h threshold (sensor_id # rest) =
     (case states_get h sensor_id of
        None \<Rightarrow> none_too_bright h threshold rest
      | Some s \<Rightarrow>
          (case to_float h s of
             None \<Rightarrow> none_too_bright h threshold rest
           | Some v \<Rightarrow> if float_gt v threshold then False else none_too_bright h threshold rest))"

definition get_threshold :: "config \<Rightarrow> real" where
  "get_threshold c =
     (case illuminance_threshold c of None \<Rightarrow> DEFAULT_ILLUMINANCE_THRESHOLD | Some t \<Rightarrow> t)"

definition check_illuminance :: "host \<Rightarrow> manager \<Rightarrow> bool" where
  "check_illuminance h st =
     (case illuminance_sensors (entry_data st) of
        None \<Rightarrow> True
      | Some [] \<Rightarrow> True
      | Some sensors \<Rightarrow> none_too_bright h (get_threshold (entry_data st)) sensors)"

section \<open>Restoration\<close>

text \<open>
  \<^verbatim>\<open>_restore_lights\<close>. Its guards are evaluated in the order of the source: the time
  slots are not looked at when the rule is disabled, the illuminance not when no slot is
  active. An exception of the time-slot check leaves the coroutine before any call.
\<close>

definition restore_lights_guards :: "host \<Rightarrow> manager \<Rightarrow> error + bool" where
  "restore_lights_guards h st =
     (if \<not> enabled st then Inr False
      else case is_in_active_time_slot h st of
             Inl e \<Rightarrow> Inl e
           | Inr False \<Rightarrow> Inr False
           | Inr True \<Rightarrow> Inr (check_illuminance h st))"

text \<open>
  The body up to its only await: either the coroutine is over (returned or raised), or
  the restore service has been called with the configured lights and the coroutine waits
  for the call to complete.
\<close>

definition restore_lights_begin :: "host \<Rightarrow> manager \<Rightarrow> phase \<times> manager" where
  "restore_lights_begin h st =
     (case restore_lights_guards h st of
        Inl e \<Rightarrow> (Done (Some e), st)
      | Inr False \<Rightarrow> (Done None, st)
      | Inr True \<Rightarrow> (AwaitingCall 0, emit (RestoreState (lights (entry_data st))) st))"

datatype wake = Elapsed | Returned | Failed

text \<open>The rest of the body, when the awaited call has returned or has raised.\<close>

fun restore_lights_resume :: "nat \<Rightarrow> phase \<Rightarrow> wake \<Rightarrow> manager \<Rightarrow> manager" where
  "restore_lights_resume tid (AwaitingCall k) Returned st =
     set_phase tid (Done None) (emit (Fire (RestorationTriggered (m_area st))) st)"
| "restore_lights_resume tid (AwaitingCall k) Failed st =
     set_phase tid (Done (Some ActionFailure)) st"
| "restore_lights_resume tid p w st = st"

text \<open>\<^verbatim>\<open>hass.async_create_task(self._restore_lights())\<close>\<close>

definition spawn_restore :: "host \<Rightarrow> manager \<Rightarrow> manager" where
  "spawn_restore h st =
     (case restore_lights_begin h st of (p, st') \<Rightarrow> create_task RestoreLights p st')"

section \<open>Off-delay timers\<close>

text \<open>\<^verbatim>\<open>any(self._motion_active.values())\<close>\<close>

definition any_motion_active :: "manager \<Rightarrow> bool" where
  "any_motion_active st = list_ex snd (motion_active st)"

text \<open>
  The \<^verbatim>\<open>finally\<close> clause of \<^verbatim>\<open>_handle_delay_timer\<close> and the end of the coroutine:
  the entry of the sensor is popped from \<open>restore_timers\<close>.
\<close>

definition finish_timer :: "nat \<Rightarrow> entity_id \<Rightarrow> error option \<Rightarrow> manager \<Rightarrow> manager" where
  "finish_timer tid sensor_id r st =
     set_phase tid (Done r)
       (st\<lparr>restore_timers := AList.delete sensor_id (restore_timers st)\<rparr>)"

text \<open>
  The loop over the lights, entered at light number \<open>k\<close>: call \<^verbatim>\<open>light.turn_off\<close> for it
  and wait, or, past the last light, fire the cancellation event and finish.
\<close>

definition turn_off_from :: "nat \<Rightarrow> entity_id \<Rightarrow> nat \<Rightarrow> manager \<Rightarrow> manager" where
  "turn_off_from tid sensor_id k st =
     (if k < length (lights (entry_data st))
      then set_phase tid (AwaitingCall k) (emit (TurnOff (lights (entry_data st) ! k)) st)
      else finish_timer tid sensor_id None
             (emit (Fire (RestorationCancelled (m_area st))) st))"

text \<open>
  \<^verbatim>\<open>_handle_delay_timer\<close>, resumed where it is suspended: after the sleep the occupancy
  is checked once; a call that raises leaves through \<^verbatim>\<open>finally\<close> with its exception.
\<close>

fun handle_delay_timer :: "nat \<Rightarrow> entity_id \<Rightarrow> phase \<Rightarrow> wake \<Rightarrow> manager \<Rightarrow> manager" where
  "handle_delay_timer tid sensor_id Sleeping Elapsed st =
     (if \<not> any_motion_active st then turn_off_from tid sensor_id 0 st
      else finish_timer tid sensor_id None st)"
| "handle_delay_timer tid sensor_id (AwaitingCall k) Returned st =
     turn_off_from tid sensor_id (Suc k) st"
| "handle_delay_timer tid sensor_id (AwaitingCall k) Failed st =
     finish_timer tid sensor_id (Some ActionFailure) st"
| "handle_delay_timer tid sensor_id p w st = st"

text \<open>
  The event loop resumes task \<open>tid\<close>. A task that was cancelled gets CancelledError at
  its await: the timer swallows it and runs \<^verbatim>\<open>finally\<close>, the restoration ends with it.
\<close>

definition resume :: "nat \<Rightarrow> wake \<Rightarrow> manager \<Rightarrow> manager" where
  "resume tid w st =
     (if tid < length (tasks st) then
        (let t = tasks st ! tid in
         if is_done (phase t) then st
         else if cancel_requested t then
           (case coro t of
              DelayTimer sensor_id \<Rightarrow> finish_timer tid sensor_id None st
            | RestoreLights \<Rightarrow> set_phase tid (Done (Some CancelledError)) st)
         else
           (case coro t of
              DelayTimer sensor_id \<Rightarrow> handle_delay_timer tid sensor_id (phase t) w st
            | RestoreLights \<Rightarrow> restore_lights_resume tid (phase t) w st))
      else st)"

section \<open>Motion events and the periodic scan\<close>

definition get_delay :: "config \<Rightarrow> int" where
  "get_delay c = (case delay c of None \<Rightarrow> DEFAULT_DELAY | Some d \<Rightarrow> d)"

text \<open>
  \<^verbatim>\<open>_handle_motion_change\<close>. On motion the timer of the sensor is popped and cancelled
  and a restoration is started; without motion a timer task is created and stored under
  the sensor, whatever was stored there before.
\<close>

definition handle_motion_change :: "host \<Rightarrow> entity_id \<Rightarrow> manager \<Rightarrow> error + manager" where
  "handle_motion_change h motion_sensor_id st =
     (if \<not> enabled st then Inr st
      else case map_of (motion_active st) motion_sensor_id of
        None \<Rightarrow> Inl KeyError
      | Some True \<Rightarrow>
          Inr (spawn_restore h
                (case map_of (restore_timers st) motion_sensor_id of
                   None \<Rightarrow> st
                 | Some timer \<Rightarrow>
                     cancel timer
                       (st\<lparr>restore_timers := AList.delete motion_sensor_id (restore_timers st)\<rparr>)))
      | Some False \<Rightarrow>
          (if get_delay (entry_data st) > 0
           then Inr ((create_task (DelayTimer motion_sensor_id) Sleeping st)
                       \<lparr>restore_timers :=
                          AList.update motion_sensor_id (length (tasks st)) (restore_timers st)\<rparr>)
           else Inr st))"

text \<open>
  \<^verbatim>\<open>handle_motion\<close>, the listener of state changes: \<open>new_state\<close> is the state string of
  the event's new state, \<open>None\<close> when the event has no new state.
\<close>

definition handle_motion :: "host \<Rightarrow> entity_id \<Rightarrow> string option \<Rightarrow> manager \<Rightarrow> error + manager" where
  "handle_motion h entity_id new_state st =
     (if map_of (motion_active st) entity_id = None then Inr st
      else case new_state of
        None \<Rightarrow> Inr st
      | Some s \<Rightarrow>
          handle_motion_change h entity_id
            (st\<lparr>motion_active := AList.update entity_id (s = STATE_ON) (motion_active st)\<rparr>))"

text \<open>
  \<^verbatim>\<open>_handle_interval_scan\<close>: after its own guards it awaits \<^verbatim>\<open>_restore_lights\<close>, so what
  is left of it is a restoration. An exception of its guards ends the scan.
\<close>

definition handle_interval_scan :: "host \<Rightarrow> manager \<Rightarrow> manager" where
  "handle_interval_scan h st =
     (if \<not> enabled st then st
      else case is_in_active_time_slot h st of
        Inl e \<Rightarrow> st
      | Inr False \<Rightarrow> st
      | Inr True \<Rightarrow>
          if check_illuminance h st \<and> any_motion_active st then spawn_restore h st else st)"

section \<open>Services\<close>

definition set_time_slots :: "slot list \<Rightarrow> manager \<Rightarrow> manager" where
  "set_time_slots l st = st\<lparr>entry_data := (entry_data st)\<lparr>time_slots := Some l\<rparr>\<rparr>"

definition handle_add_time_slot :: "string \<Rightarrow> string \<Rightarrow> manager \<Rightarrow> manager" where
  "handle_add_time_slot start_time end_time st =
     emit (Fire (TimeSlotAdded (m_area st) (start_time, end_time)))
       (set_time_slots (get_time_slots (entry_data st) @ [(start_time, end_time)]) st)"

definition handle_remove_time_slot :: "string \<Rightarrow> string \<Rightarrow> manager \<Rightarrow> manager" where
  "handle_remove_time_slot start_time end_time st =
     emit (Fire (TimeSlotRemoved (m_area st) (start_time, end_time)))
       (set_time_slots
          (filter (\<lambda>slot. slot \<noteq> (start_time, end_time)) (get_time_slots (entry_data st))) st)"

text \<open>
  The area filter of enable and disable: \<^verbatim>\<open>if area := call.data.get(CONF_AREA)\<close> holds
  for a string that is present and not empty.
\<close>

definition other_area :: "string option \<Rightarrow> manager \<Rightarrow> bool" where
  "other_area a st = (case a of None \<Rightarrow> False | Some x \<Rightarrow> x \<noteq> [] \<and> x \<noteq> m_area st)"

definition handle_enable :: "string option \<Rightarrow> manager \<Rightarrow> manager" where
  "handle_enable a st = (if other_area a st then st else st\<lparr>enabled := True\<rparr>)"

definition cancel_all :: "nat list \<Rightarrow> manager \<Rightarrow> manager" where
  "cancel_all timers st = foldl (\<lambda>s timer. cancel timer s) st timers"

definition handle_disable :: "string option \<Rightarrow> manager \<Rightarrow> manager" where
  "handle_disable a st =
     (if other_area a st then st
      else (cancel_all (map snd (restore_timers st)) (st\<lparr>enabled := False\<rparr>))
             \<lparr>restore_timers := []\<rparr>)"

section \<open>The manager as a state machine\<close>

text \<open>
  Everything runs on one event loop, one handler or one task step at a time. An input is
  a state-change event, a tick of the periodic scan, a service call, or a suspended task
  being resumed.
\<close>

datatype input =
    StateChanged host entity_id "string option"
  | IntervalScan host
  | AddTimeSlot string string
  | RemoveTimeSlot string string
  | Enable "string option"
  | Disable "string option"
  | Wake nat wake

fun step :: "input \<Rightarrow> manager \<Rightarrow> manager" where
  "step (StateChanged h entity_id new_state) st =
     (case handle_motion h entity_id new_state st of Inl e \<Rightarrow> st | Inr st' \<Rightarrow> st')"
| "step (IntervalScan h) st = handle_interval_scan h st"
| "step (AddTimeSlot s e) st = handle_add_time_slot s e st"
| "step (RemoveTimeSlot s e) st = handle_remove_time_slot s e st"
| "step (Enable a) st = handle_enable a st"
| "step (Disable a) st = handle_disable a st"
| "step (Wake tid w) st = resume tid w st"

definition run :: "input list \<Rightarrow> manager \<Rightarrow> manager" where
  "run ins st = foldl (\<lambda>s i. step i s) st ins"

text \<open>
  A task that emits nothing when it is resumed: it is done, or its cancellation is
  pending.
\<close>

definition silent :: "nat \<Rightarrow> manager \<Rightarrow> bool" where
  "silent tid st =
     (tid < length (tasks st) \<and>
      (is_done (phase (tasks st ! tid)) \<or> cancel_requested (tasks st ! tid)))"

text \<open>Every handle stored in \<open>restore_timers\<close> is a task of the manager.\<close>

definition timers_wf :: "manager \<Rightarrow> bool" where
  "timers_wf st = list_all (\<lambda>(sensor_id, timer). timer < length (tasks st)) (restore_timers st)"

section \<open>A configured rule, for concrete runs\<close>

text \<open>
  One area with two lights, one motion sensor and one illuminance sensor, a window from
  08:00 to 22:00, a threshold of 10 lux and an off delay of 5 seconds; a host whose clock
  shows 09:00 and whose illuminance sensor reads 5.
\<close>

definition example_parse :: "string \<Rightarrow> pytime option" where
  "example_parse = map_of [(''08:00:00'', Time 8 0 0 0), (''22:00:00'', Time 22 0 0 0)]"

definition example_host :: host where
  "example_host =
     \<lparr>now_time = Time 9 0 0 0, parse_time = example_parse,
      states_get = map_of [(''sensor.lux'', ''5'')],
      to_float = map_of [(''5'', Finite 5), (''50'', Finite 50)]\<rparr>"

definition example_config :: config where
  "example_config =
     \<lparr>area = ''hall'', lights = [''light.a'', ''light.b''],
      motion_sensors = [''binary_sensor.m''],
      illuminance_sensors = Some [''sensor.lux''], illuminance_threshold = Some 10,
      delay = Some 5, time_slots = Some [(''08:00:00'', ''22:00:00'')]\<rparr>"

definition example_manager :: manager where
  "example_manager = async_setup (new_manager example_config)"



definition example_table :: "string \<Rightarrow> pyfloat option" where
  "example_table =
     map_of [(''5'', Finite 5), (''10'', Finite 10), (''11'', Finite 11), (''50'', Finite 50),
             (''100'', Finite 100), (''101'', Finite 101), (''inf'', PosInf), (''nan'', NaN)]"

definition example_reading :: "string \<Rightarrow> host" where
  "example_reading r =
     example_host\<lparr>states_get := map_of [(''sensor.lux'', r)], to_float := example_table\<rparr>"

definition example_threshold :: "real option \<Rightarrow> manager" where
  "example_threshold t =
     example_manager\<lparr>entry_data := example_config\<lparr>illuminance_threshold := t\<rparr>\<rparr>"

definition example_no_state :: host where
  "example_no_state = example_host\<lparr>states_get := (\<lambda>entity_id. None)\<rparr>"

definition example_sensors :: "entity_id list option \<Rightarrow> manager" where
  "example_sensors l =
     example_manager\<lparr>entry_data := example_config\<lparr>illuminance_sensors := l\<rparr>\<rparr>"

text \<open>The motion sensor has reported no motion once: its off-delay timer is pending.\<close>

definition example_armed :: manager where
  "example_armed =
     run [StateChanged example_host ''binary_sensor.m'' (Some ''off'')] example_manager"

lemma example_manager_eq:
  "example_manager =
     \<lparr>entry_data = example_config, m_area = ''hall'', enabled = True,
      motion_active = [(''binary_sensor.m'', False)], restore_timers = [], tasks = [],
      effects = []\<rparr>"
  by (simp add: example_manager_def async_setup_def new_manager_def example_config_def)

lemma example_fields:
  "effects example_manager = []" "m_area example_manager = ''hall''"
  "lights (entry_data example_manager) = [''light.a'', ''light.b'']"
  "enabled example_manager" "tasks example_manager = []" "restore_timers example_manager = []"
  by (simp_all add: example_manager_eq example_config_def)

lemma example_armed_eq:
  "example_armed =
     example_manager
       \<lparr>restore_timers := [(''binary_sensor.m'', 0)],
        tasks := [\<lparr>coro = DelayTimer ''binary_sensor.m'', phase = Sleeping,
                   cancel_requested = False\<rparr>]\<rparr>"
  by (simp add: example_armed_def run_def example_manager_eq handle_motion_def
      handle_motion_change_def STATE_ON_def get_delay_def example_config_def create_task_def)

lemma example_setup_run:
  "run [StateChanged example_host ''binary_sensor.m'' (Some ''off'')]
     (async_setup (new_manager example_config)) = example_armed"
  by (simp add: example_armed_def example_manager_def)

lemmas timer_eval =
  resume_def turn_off_from_def finish_timer_def set_phase_def emit_def any_motion_active_def
  is_done_def

lemma example_slots:
  "get_time_slots (entry_data example_manager) = [(''08:00:00'', ''22:00:00'')]"
  by (simp add: example_manager_eq example_config_def get_time_slots_def)

section \<open>The time window\<close>

lemma time_le_refl: "time_le t t"
  by (cases t) simp


lemma in_any_slot_empty: "in_any_slot parse t [] = Inr False"
  by simp

lemma in_any_slot_instant:
  "parse s = Some t \<Longrightarrow> parse e = Some t \<Longrightarrow> in_any_slot parse t [(s, e)] = Inr True"
  by (simp add: time_le_refl)






section \<open>The illuminance gate\<close>

lemma none_too_bright_iff:
  "none_too_bright h thr xs \<longleftrightarrow>
     \<not> (\<exists>sensor_id \<in> set xs. \<exists>s v.
           states_get h sensor_id = Some s \<and> to_float h s = Some v \<and> float_gt v thr)"
  by (induction xs) (auto split: option.splits)

lemma float_gt_iff: "float_gt v t \<longleftrightarrow> v = PosInf \<or> (\<exists>x. v = Finite x \<and> t < x)"
  by (cases v) simp_all

lemma example_gate_simps:
  "illuminance_sensors (entry_data (example_threshold t)) = Some [''sensor.lux'']"
  "illuminance_threshold (entry_data (example_threshold t)) = t"
  "states_get (example_reading r) ''sensor.lux'' = Some r"
  "to_float (example_reading r) = example_table"
  "states_get example_no_state ''sensor.lux'' = None"
  "illuminance_sensors (entry_data (example_sensors l)) = l"
  "illuminance_threshold (entry_data (example_sensors l)) = Some 10"
  by (simp_all add: example_threshold_def example_config_def example_reading_def
      example_no_state_def example_sensors_def)

lemma example_table_simps:
  "example_table ''10'' = Some (Finite 10)" "example_table ''11'' = Some (Finite 11)"
  "example_table ''50'' = Some (Finite 50)" "example_table ''100'' = Some (Finite 100)"
  "example_table ''101'' = Some (Finite 101)" "example_table ''inf'' = Some PosInf"
  "example_table ''nan'' = Some NaN" "example_table ''unknown'' = None"
  by (simp_all add: example_table_def)

text \<open>
  C6: the illuminance gate returns true when no illuminance sensors are configured (the
  key is absent or the list is empty); otherwise it returns false if and only if some
  configured sensor has a state that is a number strictly greater than the threshold,
  which is the configured one, or 10 when none is configured. Sensors without state and
  states that are not numbers do not matter; a reading equal to the threshold passes.
\<close>

theorem check_illuminance_gate:
  "check_illuminance h st =
     (case illuminance_sensors (entry_data st) of
        None \<Rightarrow> True
      | Some sensors \<Rightarrow>
          sensors = [] \<or>
          \<not> (\<exists>sensor_id \<in> set sensors. \<exists>s v.
                states_get h sensor_id = Some s \<and> to_float h s = Some v \<and>
                (v = PosInf \<or>
                 (\<exists>x. v = Finite x \<and>
                    (case illuminance_threshold (entry_data st) of
                       None \<Rightarrow> 10 | Some t \<Rightarrow> t) < x))))"
  by (simp add: check_illuminance_def none_too_bright_iff float_gt_iff get_threshold_def
      DEFAULT_ILLUMINANCE_THRESHOLD_def split: option.splits list.splits)

theorem check_illuminance_gate_witness:
  "check_illuminance (example_reading ''50'') (example_threshold (Some 100)) \<and>
   check_illuminance (example_reading ''100'') (example_threshold (Some 100)) \<and>
   \<not> check_illuminance (example_reading ''101'') (example_threshold (Some 100)) \<and>
   check_illuminance (example_reading ''10'') (example_threshold None) \<and>
   \<not> check_illuminance (example_reading ''11'') (example_threshold None) \<and>
   \<not> check_illuminance (example_reading ''inf'') (example_threshold (Some 100)) \<and>
   check_illuminance (example_reading ''nan'') (example_threshold (Some 100)) \<and>
   check_illuminance (example_reading ''unknown'') (example_threshold (Some 100)) \<and>
   check_illuminance example_no_state (example_threshold (Some 100)) \<and>
   check_illuminance (example_reading ''101'') (example_sensors None) \<and>
   check_illuminance (example_reading ''101'') (example_sensors (Some [])) \<and>
   \<not> check_illuminance (example_reading ''101'') (example_sensors (Some [''sensor.lux'']))"
  using
    check_illuminance_gate [of "example_reading ''50''" "example_threshold (Some 100)"]
    check_illuminance_gate [of "example_reading ''100''" "example_threshold (Some 100)"]
    check_illuminance_gate [of "example_reading ''101''" "example_threshold (Some 100)"]
    check_illuminance_gate [of "example_reading ''10''" "example_threshold None"]
    check_illuminance_gate [of "example_reading ''11''" "example_threshold None"]
    check_illuminance_gate [of "example_reading ''inf''" "example_threshold (Some 100)"]
    check_illuminance_gate [of "example_reading ''nan''" "example_threshold (Some 100)"]
    check_illuminance_gate [of "example_reading ''unknown''" "example_threshold (Some 100)"]
    check_illuminance_gate [of example_no_state "example_threshold (Some 100)"]
    check_illuminance_gate [of "example_reading ''101''" "example_sensors None"]
    check_illuminance_gate [of "example_reading ''101''" "example_sensors (Some [])"]
    check_illuminance_gate [of "example_reading ''101''" "example_sensors (Some [''sensor.lux''])"]
  by (simp add: example_gate_simps example_table_simps)

section \<open>What a restoration does\<close>

text \<open>
  C1: \<^verbatim>\<open>_restore_lights\<close> changes nothing and calls nothing unless the rule is enabled,
  the clock is inside a time slot and the illuminance gate passes. When all three hold it
  calls the restore service for the configured lights and waits; the
  restoration-triggered event with the area of the rule is fired when the call has
  returned, and is not fired when the call raises.
\<close>

theorem restore_lights_guarded:
  "(case restore_lights_begin h st of
      (p, st1) \<Rightarrow>
        if enabled st \<and> is_in_active_time_slot h st = Inr True \<and> check_illuminance h st
        then p = AwaitingCall 0 \<and>
             st1 = st\<lparr>effects := effects st @ [RestoreState (lights (entry_data st))]\<rparr> \<and>
             effects (restore_lights_resume tid p Returned st1) =
               effects st1 @ [Fire (RestorationTriggered (m_area st))] \<and>
             effects (restore_lights_resume tid p Failed st1) = effects st1
        else is_done p \<and> st1 = st \<and> restore_lights_resume tid p w st1 = st)"
  by (auto simp: restore_lights_begin_def restore_lights_guards_def emit_def set_phase_def
      is_done_def split: sum.splits bool.splits)

theorem restore_lights_guarded_witness:
  "enabled example_manager \<and>
   is_in_active_time_slot example_host example_manager = Inr True \<and>
   check_illuminance example_host example_manager \<and>
   effects (restore_lights_resume 0 (fst (restore_lights_begin example_host example_manager))
      Returned (snd (restore_lights_begin example_host example_manager))) =
     [RestoreState [''light.a'', ''light.b''], Fire (RestorationTriggered ''hall'')]"
proof -
  have e: "enabled example_manager" by (simp add: example_manager_eq)
  have t: "is_in_active_time_slot example_host example_manager = Inr True"
    by (simp add: is_in_active_time_slot_def example_slots example_host_def example_parse_def)
  have c: "check_illuminance example_host example_manager"
    by (simp add: check_illuminance_def example_manager_eq example_config_def example_host_def
        get_threshold_def)
  show ?thesis
    using restore_lights_guarded [where h = example_host and st = example_manager and tid = 0
        and w = Returned] e t c
    by (simp add: split_beta example_fields set_phase_def emit_def)
qed

section \<open>Time-slot services\<close>

text \<open>
  C3 (as the code has it): for every add-time-slot request the two strings are taken as
  they are, neither parsed nor compared; the slot is appended to the slot list and the
  time-slot-added event is fired with the area and the slot.
\<close>

theorem handle_add_time_slot_appends:
  "get_time_slots (entry_data (handle_add_time_slot start_time end_time st)) =
     get_time_slots (entry_data st) @ [(start_time, end_time)] \<and>
   effects (handle_add_time_slot start_time end_time st) =
     effects st @ [Fire (TimeSlotAdded (m_area st) (start_time, end_time))]"
  by (simp add: handle_add_time_slot_def set_time_slots_def emit_def get_time_slots_def)

theorem handle_add_time_slot_appends_witness:
  "get_time_slots (entry_data (handle_add_time_slot ''06:00:00'' ''07:00:00'' example_manager)) =
     [(''08:00:00'', ''22:00:00''), (''06:00:00'', ''07:00:00'')] \<and>
   effects (handle_add_time_slot ''06:00:00'' ''07:00:00'' example_manager) =
     [Fire (TimeSlotAdded ''hall'' (''06:00:00'', ''07:00:00''))]"
  using handle_add_time_slot_appends [of "''06:00:00''" "''07:00:00''" example_manager]
  by (simp add: example_slots example_fields)

text \<open>
  A request whose start is after its end, and a request whose start is not a time, are
  both accepted: the slot list grows and the event is fired.
\<close>

theorem handle_add_time_slot_counterexample:
  "parse_time example_host ''22:00:00'' = Some (Time 22 0 0 0) \<and>
   parse_time example_host ''08:00:00'' = Some (Time 8 0 0 0) \<and>
   \<not> time_le (Time 22 0 0 0) (Time 8 0 0 0) \<and>
   get_time_slots (entry_data (handle_add_time_slot ''22:00:00'' ''08:00:00'' example_manager))
     \<noteq> get_time_slots (entry_data example_manager) \<and>
   effects (handle_add_time_slot ''22:00:00'' ''08:00:00'' example_manager) =
     [Fire (TimeSlotAdded ''hall'' (''22:00:00'', ''08:00:00''))] \<and>
   parse_time example_host ''noon'' = None \<and>
   get_time_slots (entry_data (handle_add_time_slot ''noon'' ''22:00:00'' example_manager))
     \<noteq> get_time_slots (entry_data example_manager) \<and>
   effects (handle_add_time_slot ''noon'' ''22:00:00'' example_manager) =
     [Fire (TimeSlotAdded ''hall'' (''noon'', ''22:00:00''))]"
  by (simp add: handle_add_time_slot_def set_time_slots_def emit_def get_time_slots_def
      example_manager_eq example_config_def example_host_def example_parse_def)

text \<open>
  C8: a remove-time-slot request removes every slot equal to the given pair and keeps the
  others in their order; a pair that is in no slot leaves the list as it was; the
  time-slot-removed event is fired in every case.
\<close>

theorem handle_remove_time_slot_removes_all:
  "get_time_slots (entry_data (handle_remove_time_slot a b st)) =
     filter (\<lambda>slot. slot \<noteq> (a, b)) (get_time_slots (entry_data st)) \<and>
   (a, b) \<notin> set (get_time_slots (entry_data (handle_remove_time_slot a b st))) \<and>
   ((a, b) \<notin> set (get_time_slots (entry_data st)) \<longrightarrow>
      get_time_slots (entry_data (handle_remove_time_slot a b st)) =
        get_time_slots (entry_data st)) \<and>
   effects (handle_remove_time_slot a b st) =
     effects st @ [Fire (TimeSlotRemoved (m_area st) (a, b))]"
proof -
  have "(a, b) \<notin> set l \<Longrightarrow> filter (\<lambda>slot. slot \<noteq> (a, b)) l = l" for l :: "slot list"
    by (induction l) auto
  then show ?thesis
    by (simp add: handle_remove_time_slot_def set_time_slots_def emit_def get_time_slots_def)
qed

theorem handle_remove_time_slot_removes_all_witness:
  "get_time_slots (entry_data
     (handle_remove_time_slot ''06:00:00'' ''07:00:00'' example_manager)) =
     [(''08:00:00'', ''22:00:00'')] \<and>
   effects (handle_remove_time_slot ''06:00:00'' ''07:00:00'' example_manager) =
     [Fire (TimeSlotRemoved ''hall'' (''06:00:00'', ''07:00:00''))]"
  using handle_remove_time_slot_removes_all [of "''06:00:00''" "''07:00:00''" example_manager]
  by (simp add: example_slots example_fields)

section \<open>State changes that are ignored\<close>

text \<open>
  The listener never raises: the lookup in \<^verbatim>\<open>_handle_motion_change\<close> finds the key that
  \<^verbatim>\<open>handle_motion\<close> has just written, so \<open>step\<close> loses no exception of it.
\<close>

lemma handle_motion_returns: "\<exists>st'. handle_motion h entity_id new_state st = Inr st'"
  by (simp add: handle_motion_def handle_motion_change_def update_conv'
      split: option.splits bool.splits)

text \<open>
  C10: a state-change event without new state leaves the manager as it is, for a
  configured motion sensor as for any other entity: the occupancy entry keeps its value,
  no timer is created or cancelled, nothing is called.
\<close>

theorem handle_motion_no_new_state:
  "handle_motion h entity_id None st = Inr st \<and> step (StateChanged h entity_id None) st = st"
  by (simp add: handle_motion_def)

theorem handle_motion_no_new_state_witness:
  "handle_motion example_host ''binary_sensor.m'' None example_manager = Inr example_manager"
  using handle_motion_no_new_state [of example_host "''binary_sensor.m''" example_manager]
  by simp

section \<open>What an off-delay timer does\<close>

text \<open>A run is its steps in order.\<close>

lemma run_Nil [simp]: "run [] st = st"
  by (simp add: run_def)

lemma run_Cons [simp]: "run (i # ins) st = run ins (step i st)"
  by (simp add: run_def)

lemma any_motion_active_iff:
  "any_motion_active st \<longleftrightarrow> (\<exists>s. (s, True) \<in> set (motion_active st))"
  by (force simp: any_motion_active_def list_ex_iff)

lemma resume_done:
  "tid < length (tasks st) \<Longrightarrow> is_done (phase (tasks st ! tid)) \<Longrightarrow> resume tid w st = st"
  by (simp add: resume_def)

lemma run_wakes_done:
  "tid < length (tasks st) \<Longrightarrow> is_done (phase (tasks st ! tid)) \<Longrightarrow>
   run (replicate n (Wake tid w)) st = st"
  by (induction n) (simp_all add: resume_done)

lemma finish_timer_fields:
  "effects (finish_timer tid sid r st) = effects st"
  "length (tasks (finish_timer tid sid r st)) = length (tasks st)"
  "tid < length (tasks st) \<Longrightarrow> phase (tasks (finish_timer tid sid r st) ! tid) = Done r"
  "map_of (restore_timers (finish_timer tid sid r st)) sid = None"
  "entry_data (finish_timer tid sid r st) = entry_data st"
  "m_area (finish_timer tid sid r st) = m_area st"
  by (simp_all add: finish_timer_def set_phase_def AList.delete_conv')

lemma turn_off_loop:
  "tid < length (tasks st) \<Longrightarrow> coro (tasks st ! tid) = DelayTimer sid \<Longrightarrow>
   \<not> cancel_requested (tasks st ! tid) \<Longrightarrow> \<not> is_done (phase (tasks st ! tid)) \<Longrightarrow>
   k \<le> length (lights (entry_data st)) \<Longrightarrow> n = length (lights (entry_data st)) - k \<Longrightarrow>
   effects (run (replicate n (Wake tid Returned)) (turn_off_from tid sid k st)) =
     effects st @ map TurnOff (drop k (lights (entry_data st))) @
       [Fire (RestorationCancelled (m_area st))] \<and>
   phase (tasks (run (replicate n (Wake tid Returned)) (turn_off_from tid sid k st)) ! tid) =
     Done None \<and>
   map_of (restore_timers
     (run (replicate n (Wake tid Returned)) (turn_off_from tid sid k st))) sid = None"
proof (induction n arbitrary: k st)
  case 0
  then show ?case
    by (simp add: turn_off_from_def finish_timer_fields emit_def)
next
  case (Suc n)
  let ?ls = "lights (entry_data st)"
  let ?st1 = "set_phase tid (AwaitingCall k) (emit (TurnOff (?ls ! k)) st)"
  from Suc.prems have k: "k < length ?ls" by simp
  have t1: "turn_off_from tid sid k st = ?st1"
    using k by (simp add: turn_off_from_def)
  have p1: "tid < length (tasks ?st1)" "coro (tasks ?st1 ! tid) = DelayTimer sid"
    "\<not> cancel_requested (tasks ?st1 ! tid)" "phase (tasks ?st1 ! tid) = AwaitingCall k"
    "entry_data ?st1 = entry_data st" "m_area ?st1 = m_area st"
    "effects ?st1 = effects st @ [TurnOff (?ls ! k)]"
    using Suc.prems by (simp_all add: set_phase_def emit_def)
  have r: "resume tid Returned ?st1 = turn_off_from tid sid (Suc k) ?st1"
    using p1 by (simp add: resume_def is_done_def)
  have "Suc k \<le> length (lights (entry_data ?st1))" "n = length (lights (entry_data ?st1)) - Suc k"
    using Suc.prems k p1 by simp_all
  from Suc.IH [OF p1(1) p1(2) p1(3) _ this] p1
  have ih: "effects (run (replicate n (Wake tid Returned)) (turn_off_from tid sid (Suc k) ?st1)) =
     effects ?st1 @ map TurnOff (drop (Suc k) ?ls) @ [Fire (RestorationCancelled (m_area st))] \<and>
   phase (tasks (run (replicate n (Wake tid Returned)) (turn_off_from tid sid (Suc k) ?st1)) ! tid) =
     Done None \<and>
   map_of (restore_timers
     (run (replicate n (Wake tid Returned)) (turn_off_from tid sid (Suc k) ?st1))) sid = None"
    by (simp add: is_done_def)
  have d: "map TurnOff (drop k ?ls) = TurnOff (?ls ! k) # map TurnOff (drop (Suc k) ?ls)"
    using k by (metis Cons_nth_drop_Suc list.simps(9))
  show ?case
    using ih by (simp add: t1 r p1(7) d)
qed

text \<open>
  C4: when the sleep of an off-delay timer is over and the turn-off calls it makes
  return, it has turned off every configured light, in order, and fired the
  restoration-cancelled event if no tracked motion sensor was active at that moment, and
  has done nothing if one was. A timer that is cancelled does nothing more. Whenever the
  timer ends (after the check, after the last light, by a call that raises or by its
  cancellation), no entry for its sensor is left in \<open>restore_timers\<close>.
\<close>

theorem handle_delay_timer_elapse:
  assumes "tid < length (tasks st)"
    and "coro (tasks st ! tid) = DelayTimer sensor_id"
    and "\<not> is_done (phase (tasks st ! tid))"
  shows "(phase (tasks st ! tid) = Sleeping \<and> \<not> cancel_requested (tasks st ! tid) \<longrightarrow>
          effects (run (Wake tid Elapsed #
                        replicate (length (lights (entry_data st))) (Wake tid Returned)) st) =
            (if \<exists>s. (s, True) \<in> set (motion_active st) then effects st
             else effects st @ map TurnOff (lights (entry_data st)) @
                    [Fire (RestorationCancelled (m_area st))]) \<and>
          is_done (phase (tasks (run (Wake tid Elapsed #
                        replicate (length (lights (entry_data st))) (Wake tid Returned)) st)
                      ! tid)) \<and>
          ((\<exists>s. (s, True) \<in> set (motion_active st)) \<longrightarrow>
             is_done (phase (tasks (resume tid Elapsed st) ! tid)))) \<and>
         (cancel_requested (tasks st ! tid) \<longrightarrow>
            effects (resume tid w st) = effects st \<and>
            is_done (phase (tasks (resume tid w st) ! tid))) \<and>
         (is_done (phase (tasks (resume tid w st) ! tid)) \<longrightarrow>
            map_of (restore_timers (resume tid w st)) sensor_id = None)"
proof (intro conjI impI)
  assume a: "phase (tasks st ! tid) = Sleeping \<and> \<not> cancel_requested (tasks st ! tid)"
  let ?n = "length (lights (entry_data st))"
  let ?final = "run (Wake tid Elapsed # replicate ?n (Wake tid Returned)) st"
  have both: "effects ?final =
      (if \<exists>s. (s, True) \<in> set (motion_active st) then effects st
       else effects st @ map TurnOff (lights (entry_data st)) @
              [Fire (RestorationCancelled (m_area st))]) \<and>
      is_done (phase (tasks ?final ! tid))"
  proof (cases "any_motion_active st")
    case True
    then have r: "resume tid Elapsed st = finish_timer tid sensor_id None st"
      using assms a by (simp add: resume_def)
    have "run (replicate ?n (Wake tid Returned)) (finish_timer tid sensor_id None st) =
        finish_timer tid sensor_id None st"
      using assms by (intro run_wakes_done) (simp_all add: finish_timer_fields is_done_def)
    then show ?thesis
      using True assms by (simp add: r finish_timer_fields any_motion_active_iff is_done_def)
  next
    case False
    then have r: "resume tid Elapsed st = turn_off_from tid sensor_id 0 st"
      using assms a by (simp add: resume_def)
    show ?thesis
      using turn_off_loop [OF assms(1) assms(2) _ assms(3), of 0 ?n] a False
      by (simp add: r any_motion_active_iff is_done_def)
  qed
  from both show "effects ?final =
      (if \<exists>s. (s, True) \<in> set (motion_active st) then effects st
       else effects st @ map TurnOff (lights (entry_data st)) @
              [Fire (RestorationCancelled (m_area st))])" by simp
  from both show "is_done (phase (tasks ?final ! tid))" by simp
  assume "\<exists>s. (s, True) \<in> set (motion_active st)"
  then show "is_done (phase (tasks (resume tid Elapsed st) ! tid))"
    using assms a
    by (simp add: resume_def any_motion_active_iff [symmetric] finish_timer_fields is_done_def)
next
  assume c: "cancel_requested (tasks st ! tid)"
  then have r: "resume tid w st = finish_timer tid sensor_id None st"
    using assms by (simp add: resume_def)
  show "effects (resume tid w st) = effects st"
    by (simp add: r finish_timer_fields)
  show "is_done (phase (tasks (resume tid w st) ! tid))"
    using assms by (simp add: r finish_timer_fields is_done_def)
next
  assume d: "is_done (phase (tasks (resume tid w st) ! tid))"
  show "map_of (restore_timers (resume tid w st)) sensor_id = None"
  proof (cases "cancel_requested (tasks st ! tid)")
    case True
    then show ?thesis using assms by (simp add: resume_def finish_timer_fields)
  next
    case False
    then have r: "resume tid w st = handle_delay_timer tid sensor_id (phase (tasks st ! tid)) w st"
      using assms by (simp add: resume_def)
    show ?thesis
      using d assms unfolding r
      by (cases "(tid, sensor_id, phase (tasks st ! tid), w, st)" rule: handle_delay_timer.cases)
        (auto simp: finish_timer_fields turn_off_from_def set_phase_def emit_def is_done_def
          split: if_splits)
  qed
qed

theorem handle_delay_timer_elapse_witness:
  "effects (run [Wake 0 Elapsed, Wake 0 Returned, Wake 0 Returned] example_armed) =
     [TurnOff ''light.a'', TurnOff ''light.b'', Fire (RestorationCancelled ''hall'')] \<and>
   restore_timers example_armed = [(''binary_sensor.m'', 0)] \<and>
   restore_timers (run [Wake 0 Elapsed, Wake 0 Returned, Wake 0 Returned] example_armed) = []"
proof -
  have l: "replicate (length (lights (entry_data example_armed))) (Wake 0 Returned) =
      [Wake 0 Returned, Wake 0 Returned]"
    by (simp add: example_armed_eq example_fields numeral_2_eq_2)
  have m: "\<not> (\<exists>s. (s, True) \<in> set (motion_active example_armed))"
    by (simp add: example_armed_eq example_manager_eq)
  have t: "restore_timers (run [Wake 0 Elapsed, Wake 0 Returned, Wake 0 Returned] example_armed) = []"
    by (simp add: example_armed_eq example_manager_eq example_config_def timer_eval)
  show ?thesis
    using handle_delay_timer_elapse [of 0 example_armed "''binary_sensor.m''" Elapsed] m t
    by (simp add: l) (simp add: example_armed_eq example_fields is_done_def)
qed

section \<open>State changes of other entities\<close>

lemma keys_foldl_update:
  "fst ` set (foldl (\<lambda>m k. AList.update k v m) m0 ks) = fst ` set m0 \<union> set ks"
  by (induction ks arbitrary: m0) (auto simp: dom_update)

lemma setup_motion_keys:
  "fst ` set (motion_active (async_setup (new_manager c))) = set (motion_sensors c)"
  by (simp add: async_setup_def new_manager_def keys_foldl_update)

lemma cancel_fields [simp]:
  "motion_active (cancel tid st) = motion_active st"
  "restore_timers (cancel tid st) = restore_timers st"
  "effects (cancel tid st) = effects st"
  "enabled (cancel tid st) = enabled st"
  "entry_data (cancel tid st) = entry_data st"
  "m_area (cancel tid st) = m_area st"
  "length (tasks (cancel tid st)) = length (tasks st)"
  by (simp_all add: cancel_def)

lemma cancel_all_fields [simp]:
  "motion_active (cancel_all ts st) = motion_active st"
  "restore_timers (cancel_all ts st) = restore_timers st"
  "effects (cancel_all ts st) = effects st"
  "enabled (cancel_all ts st) = enabled st"
  "entry_data (cancel_all ts st) = entry_data st"
  "m_area (cancel_all ts st) = m_area st"
  "length (tasks (cancel_all ts st)) = length (tasks st)"
  unfolding cancel_all_def by (induction ts arbitrary: st) simp_all

lemma spawn_restore_fields [simp]:
  "motion_active (spawn_restore h st) = motion_active st"
  "restore_timers (spawn_restore h st) = restore_timers st"
  "enabled (spawn_restore h st) = enabled st"
  "entry_data (spawn_restore h st) = entry_data st"
  "m_area (spawn_restore h st) = m_area st"
  "length (tasks (spawn_restore h st)) = Suc (length (tasks st))"
  by (simp_all add: spawn_restore_def restore_lights_begin_def create_task_def emit_def
      split: sum.splits bool.splits)

lemma resume_fields [simp]:
  "motion_active (resume tid w st) = motion_active st"
  "enabled (resume tid w st) = enabled st"
  "entry_data (resume tid w st) = entry_data st"
  "m_area (resume tid w st) = m_area st"
  "length (tasks (resume tid w st)) = length (tasks st)"
proof -
  have d: "motion_active (handle_delay_timer tid s p w st) = motion_active st \<and>
      enabled (handle_delay_timer tid s p w st) = enabled st \<and>
      entry_data (handle_delay_timer tid s p w st) = entry_data st \<and>
      m_area (handle_delay_timer tid s p w st) = m_area st \<and>
      length (tasks (handle_delay_timer tid s p w st)) = length (tasks st)" for s p
    by (cases "(tid, s, p, w, st)" rule: handle_delay_timer.cases)
      (simp_all add: turn_off_from_def finish_timer_def set_phase_def emit_def)
  have r: "motion_active (restore_lights_resume tid p w st) = motion_active st \<and>
      enabled (restore_lights_resume tid p w st) = enabled st \<and>
      entry_data (restore_lights_resume tid p w st) = entry_data st \<and>
      m_area (restore_lights_resume tid p w st) = m_area st \<and>
      length (tasks (restore_lights_resume tid p w st)) = length (tasks st)" for p
    by (cases "(tid, p, w, st)" rule: restore_lights_resume.cases)
      (simp_all add: set_phase_def emit_def)
  show "motion_active (resume tid w st) = motion_active st"
    "enabled (resume tid w st) = enabled st"
    "entry_data (resume tid w st) = entry_data st"
    "m_area (resume tid w st) = m_area st"
    "length (tasks (resume tid w st)) = length (tasks st)"
    using d r
    by (simp_all add: resume_def Let_def finish_timer_def set_phase_def split: coroutine.splits)
qed

lemma handle_motion_change_motion_active:
  "handle_motion_change h e st = Inr st' \<Longrightarrow> motion_active st' = motion_active st"
  by (auto simp: handle_motion_change_def create_task_def
      split: if_splits option.splits bool.splits)

lemma handle_motion_keys:
  assumes "handle_motion h e ns st = Inr st'"
  shows "fst ` set (motion_active st') = fst ` set (motion_active st)"
proof (cases "map_of (motion_active st) e = None \<or> ns = None")
  case True
  then have "st' = st"
    using assms by (auto simp: handle_motion_def split: if_splits)
  then show ?thesis by simp
next
  case False
  then obtain s where s: "ns = Some s" and k: "e \<in> fst ` set (motion_active st)"
    by (auto simp: map_of_eq_None_iff)
  let ?st1 = "st\<lparr>motion_active := AList.update e (s = STATE_ON) (motion_active st)\<rparr>"
  have "handle_motion_change h e ?st1 = Inr st'"
    using assms False s by (auto simp: handle_motion_def)
  then have "motion_active st' = motion_active ?st1"
    by (rule handle_motion_change_motion_active)
  then show ?thesis
    using k by (auto simp: dom_update)
qed

lemma step_motion_keys:
  "fst ` set (motion_active (step i st)) = fst ` set (motion_active st)"
proof (cases i)
  case (StateChanged h e ns)
  then show ?thesis
    by (auto simp: handle_motion_keys split: sum.splits)
next
  case (IntervalScan h)
  then show ?thesis
    by (simp add: handle_interval_scan_def split: sum.splits bool.splits)
qed (simp_all add: handle_add_time_slot_def handle_remove_time_slot_def set_time_slots_def
    emit_def handle_enable_def handle_disable_def)

lemma run_motion_keys:
  "fst ` set (motion_active (run ins st)) = fst ` set (motion_active st)"
  by (induction ins arbitrary: st) (simp_all add: step_motion_keys)

text \<open>
  C9: in every state the manager reaches from its setup, a state-change event of an
  entity that is not a configured motion sensor leaves the manager as it is: occupancy,
  timers and the enabled flag keep their values, no task is created and nothing is called.
\<close>

theorem handle_motion_unknown_entity:
  assumes "entity_id \<notin> set (motion_sensors c)"
  shows "handle_motion h entity_id new_state (run ins (async_setup (new_manager c))) =
           Inr (run ins (async_setup (new_manager c))) \<and>
         step (StateChanged h entity_id new_state) (run ins (async_setup (new_manager c))) =
           run ins (async_setup (new_manager c))"
proof -
  have "entity_id \<notin> fst ` set (motion_active (run ins (async_setup (new_manager c))))"
    using assms by (simp add: run_motion_keys setup_motion_keys)
  then have "map_of (motion_active (run ins (async_setup (new_manager c)))) entity_id = None"
    by (simp add: map_of_eq_None_iff)
  then show ?thesis
    by (simp add: handle_motion_def)
qed

theorem handle_motion_unknown_entity_witness:
  "''light.a'' \<notin> set (motion_sensors example_config) \<and>
   handle_motion example_host ''light.a'' (Some ''on'') example_armed = Inr example_armed"
proof -
  note e = example_setup_run
  have n: "''light.a'' \<notin> set (motion_sensors example_config)"
    by (simp add: example_config_def)
  show ?thesis
    using handle_motion_unknown_entity [OF n, of example_host "Some ''on''"
        "[StateChanged example_host ''binary_sensor.m'' (Some ''off'')]"] n
    unfolding e by simp
qed

section \<open>Disabling the rule\<close>

subsection \<open>Cancelled tasks stay silent\<close>

lemma silent_emit: "silent tid st \<Longrightarrow> silent tid (emit a st)"
  by (simp add: silent_def emit_def)

lemma silent_create_task: "silent tid st \<Longrightarrow> silent tid (create_task c p st)"
  by (auto simp: silent_def create_task_def nth_append)

lemma silent_cancel: "silent tid st \<Longrightarrow> silent tid (cancel t st)"
  by (auto simp: silent_def cancel_def nth_list_update)

lemma silent_cancel_all: "silent tid st \<Longrightarrow> silent tid (cancel_all ts st)"
  unfolding cancel_all_def by (induction ts arbitrary: st) (simp_all add: silent_cancel)

lemma silent_set_phase:
  "silent tid st \<Longrightarrow> t \<noteq> tid \<or> is_done p \<Longrightarrow> silent tid (set_phase t p st)"
  by (cases "t = tid") (auto simp: silent_def set_phase_def)

lemma silent_finish_timer: "silent tid st \<Longrightarrow> silent tid (finish_timer t s r st)"
  by (cases "t = tid") (auto simp: silent_def finish_timer_def set_phase_def is_done_def)

lemma silent_upd:
  "silent tid (st\<lparr>restore_timers := x\<rparr>) = silent tid st"
  "silent tid (st\<lparr>motion_active := y\<rparr>) = silent tid st"
  "silent tid (st\<lparr>enabled := z\<rparr>) = silent tid st"
  "silent tid (st\<lparr>entry_data := u\<rparr>) = silent tid st"
  "silent tid (st\<lparr>effects := v\<rparr>) = silent tid st"
  by (simp_all add: silent_def)

lemma silent_spawn_restore: "silent tid st \<Longrightarrow> silent tid (spawn_restore h st)"
  by (auto simp: spawn_restore_def restore_lights_begin_def silent_create_task silent_emit
      split: sum.splits bool.splits)

lemma silent_resume:
  assumes "silent tid st"
  shows "silent tid (resume t w st)"
proof (cases "t = tid")
  case True
  show ?thesis
  proof (cases "is_done (phase (tasks st ! tid))")
    case True
    then show ?thesis
      using assms \<open>t = tid\<close> by (simp add: resume_def)
  next
    case False
    then have c: "cancel_requested (tasks st ! tid)" "tid < length (tasks st)"
      using assms by (auto simp: silent_def)
    have "is_done (Done (Some CancelledError))" by (simp add: is_done_def)
    then show ?thesis
      using assms \<open>t = tid\<close> False c
      by (simp add: resume_def silent_finish_timer silent_set_phase split: coroutine.splits)
  qed
next
  case False
  have d: "silent tid (handle_delay_timer t s p w st)" for s p
    using assms False
    by (cases "(t, s, p, w, st)" rule: handle_delay_timer.cases)
      (simp_all add: turn_off_from_def silent_finish_timer silent_set_phase silent_emit)
  have r: "silent tid (restore_lights_resume t p w st)" for p
    using assms False
    by (cases "(t, p, w, st)" rule: restore_lights_resume.cases)
      (simp_all add: silent_set_phase silent_emit)
  show ?thesis
    using assms False d r
    by (simp add: resume_def Let_def silent_finish_timer silent_set_phase
        split: coroutine.splits)
qed

lemma silent_handle_motion:
  "silent tid st \<Longrightarrow> handle_motion h e ns st = Inr st' \<Longrightarrow> silent tid st'"
  by (auto simp: handle_motion_def handle_motion_change_def silent_upd silent_spawn_restore
      silent_cancel silent_create_task split: if_splits option.splits bool.splits)

lemma silent_step: "silent tid st \<Longrightarrow> silent tid (step i st)"
proof (cases i)
  case (StateChanged h e ns)
  assume "silent tid st"
  then show ?thesis
    using StateChanged by (auto simp: silent_handle_motion split: sum.splits)
next
  case (IntervalScan h)
  assume "silent tid st"
  then show ?thesis
    using IntervalScan
    by (simp add: handle_interval_scan_def silent_spawn_restore split: sum.splits bool.splits)
next
  case (Wake t w)
  assume "silent tid st"
  then show ?thesis
    using Wake by (simp add: silent_resume)
qed (simp_all add: handle_add_time_slot_def handle_remove_time_slot_def set_time_slots_def
    silent_emit silent_upd handle_enable_def handle_disable_def silent_cancel_all)

lemma silent_run: "silent tid st \<Longrightarrow> silent tid (run ins st)"
  by (induction ins arbitrary: st) (simp_all add: silent_step)

lemma silent_resume_effects: "silent tid st \<Longrightarrow> effects (resume tid w st) = effects st"
  by (auto simp: silent_def resume_def Let_def finish_timer_def set_phase_def
      split: coroutine.splits)

lemma cancel_all_silent:
  "tid \<in> set ts \<Longrightarrow> tid < length (tasks st) \<Longrightarrow> silent tid (cancel_all ts st)"
proof (induction ts arbitrary: st)
  case Nil
  then show ?case by simp
next
  case (Cons t ts)
  show ?case
  proof (cases "t = tid")
    case True
    have "silent tid (cancel tid st)"
      using Cons.prems by (auto simp: silent_def cancel_def)
    then have "silent tid (cancel_all ts (cancel tid st))"
      by (rule silent_cancel_all)
    then show ?thesis
      using True by (simp add: cancel_all_def)
  next
    case False
    then have "tid \<in> set ts" using Cons.prems by simp
    moreover have "tid < length (tasks (cancel t st))" using Cons.prems by simp
    ultimately have "silent tid (cancel_all ts (cancel t st))" by (rule Cons.IH)
    then show ?thesis by (simp add: cancel_all_def)
  qed
qed

subsection \<open>Timer handles are tasks\<close>

lemma timers_wf_iff:
  "timers_wf st \<longleftrightarrow>
     (\<forall>s timer. (s, timer) \<in> set (restore_timers st) \<longrightarrow> timer < length (tasks st))"
  by (force simp: timers_wf_def list_all_iff)

lemma set_delete_subset: "set (AList.delete k al) \<subseteq> set al"
  by (auto simp: AList.delete_eq)

lemma set_update_subset: "set (AList.update k v al) \<subseteq> insert (k, v) (set al)"
  by (induction al) auto

lemma resume_timers_subset: "set (restore_timers (resume t w st)) \<subseteq> set (restore_timers st)"
proof -
  have f: "set (restore_timers (finish_timer t s r st')) \<subseteq> set (restore_timers st')" for s r st'
    using set_delete_subset [of s "restore_timers st'"]
    by (simp add: finish_timer_def set_phase_def)
  have d: "set (restore_timers (handle_delay_timer t s p w st)) \<subseteq> set (restore_timers st)"
    for s p
    using f [of s None st] f [of s "Some ActionFailure" st]
      f [of s None "emit (Fire (RestorationCancelled (m_area st))) st"]
    by (cases "(t, s, p, w, st)" rule: handle_delay_timer.cases)
      (auto simp: turn_off_from_def set_phase_def emit_def)
  have r: "restore_timers (restore_lights_resume t p w st) = restore_timers st" for p
    by (cases "(t, p, w, st)" rule: restore_lights_resume.cases)
      (simp_all add: set_phase_def emit_def)
  show ?thesis
    using d r f [of _ None st]
    by (auto simp: resume_def Let_def set_phase_def split: coroutine.splits)
qed

lemma timers_wf_handle_motion:
  assumes "timers_wf st" and "handle_motion h e ns st = Inr st'"
  shows "timers_wf st'"
proof -
  have del: "\<And>x y. (x, y) \<in> set (AList.delete e (restore_timers st)) \<Longrightarrow>
      (x, y) \<in> set (restore_timers st)"
    using set_delete_subset [of e "restore_timers st"] by auto
  have upd: "\<And>x y v. (x, y) \<in> set (AList.update e v (restore_timers st)) \<Longrightarrow>
      y = v \<or> (x, y) \<in> set (restore_timers st)"
    using set_update_subset [of e _ "restore_timers st"] by auto
  show ?thesis
    using assms
    by (fastforce simp: timers_wf_iff handle_motion_def handle_motion_change_def create_task_def
        less_Suc_eq split: if_splits option.splits bool.splits dest!: del upd)
qed

lemma timers_wf_step: "timers_wf st \<Longrightarrow> timers_wf (step i st)"
proof (cases i)
  case (StateChanged h e ns)
  assume "timers_wf st"
  then show ?thesis
    using StateChanged by (auto simp: timers_wf_handle_motion split: sum.splits)
next
  case (IntervalScan h)
  assume "timers_wf st"
  then show ?thesis
    using IntervalScan
    by (fastforce simp: timers_wf_iff handle_interval_scan_def less_Suc_eq
        split: sum.splits bool.splits)
next
  case (Wake t w)
  assume "timers_wf st"
  then show ?thesis
    using Wake resume_timers_subset [of t w st] by (fastforce simp: timers_wf_iff)
qed (auto simp: timers_wf_iff handle_add_time_slot_def handle_remove_time_slot_def
    set_time_slots_def emit_def handle_enable_def handle_disable_def)

lemma timers_wf_run: "timers_wf st \<Longrightarrow> timers_wf (run ins st)"
  by (induction ins arbitrary: st) (simp_all add: timers_wf_step)

lemma timers_wf_setup: "timers_wf (async_setup (new_manager c))"
  by (simp add: timers_wf_def async_setup_def new_manager_def)

text \<open>
  What disabling does for the timers it finds: in every state the manager reaches from
  its setup, a disable call that is meant for this rule sets \<open>enabled\<close> to false, cancels
  every timer stored in \<open>restore_timers\<close> and leaves \<open>restore_timers\<close> empty; and
  whatever happens later, none of these timers emits anything when it is resumed.
\<close>

theorem handle_disable_cancels_all:
  assumes "\<not> other_area a (run ins (async_setup (new_manager c)))"
  shows "\<not> enabled (handle_disable a (run ins (async_setup (new_manager c)))) \<and>
         restore_timers (handle_disable a (run ins (async_setup (new_manager c)))) = [] \<and>
         (\<forall>timer \<in> snd ` set (restore_timers (run ins (async_setup (new_manager c)))).
            silent timer (handle_disable a (run ins (async_setup (new_manager c)))) \<and>
            (\<forall>later w.
               effects (resume timer w
                 (run later (handle_disable a (run ins (async_setup (new_manager c)))))) =
               effects (run later (handle_disable a (run ins (async_setup (new_manager c)))))))"
proof -
  let ?st = "run ins (async_setup (new_manager c))"
  have wf: "timers_wf ?st"
    by (intro timers_wf_run timers_wf_setup)
  have s: "silent timer (handle_disable a ?st)" if "timer \<in> snd ` set (restore_timers ?st)"
    for timer
  proof -
    have "timer < length (tasks ?st)"
      using wf that by (auto simp: timers_wf_iff)
    then have "silent timer (cancel_all (map snd (restore_timers ?st)) (?st\<lparr>enabled := False\<rparr>))"
      using that by (intro cancel_all_silent) simp_all
    then show ?thesis
      using assms by (simp add: handle_disable_def silent_upd)
  qed
  have "effects (resume timer w (run later (handle_disable a ?st))) =
      effects (run later (handle_disable a ?st))"
    if "timer \<in> snd ` set (restore_timers ?st)" for timer later w
    using s [OF that] by (intro silent_resume_effects silent_run)
  then show ?thesis
    using assms s by (simp add: handle_disable_def)
qed

theorem handle_disable_cancels_all_witness:
  "restore_timers example_armed = [(''binary_sensor.m'', 0)] \<and>
   \<not> enabled (handle_disable None example_armed) \<and>
   restore_timers (handle_disable None example_armed) = [] \<and>
   cancel_requested (tasks (handle_disable None example_armed) ! 0) \<and>
   effects (resume 0 Elapsed (handle_disable None example_armed)) = []"
proof -
  note e = example_setup_run
  have o: "\<not> other_area None example_armed"
    by (simp add: other_area_def)
  have d: "handle_disable None example_armed =
      example_manager
       \<lparr>enabled := False, restore_timers := [],
        tasks := [\<lparr>coro = DelayTimer ''binary_sensor.m'', phase = Sleeping,
                   cancel_requested = True\<rparr>]\<rparr>"
    by (simp add: handle_disable_def other_area_def example_armed_eq cancel_all_def cancel_def
        is_done_def example_manager_eq)
  note t = handle_disable_cancels_all
      [of None "[StateChanged example_host ''binary_sensor.m'' (Some ''off'')]" example_config,
        unfolded e, OF o]
  have z: "0 \<in> snd ` set (restore_timers example_armed)"
    by (simp add: example_armed_eq)
  from t z have "effects (resume 0 Elapsed (run [] (handle_disable None example_armed))) =
      effects (run [] (handle_disable None example_armed))"
    by blast
  then show ?thesis
    using t by (simp add: d example_fields) (simp add: example_armed_eq)
qed

section \<open>Arming a timer twice\<close>

text \<open>
  C2 (what the code does): two events without motion for the same sensor, one after the
  other, create two timers. The second is stored over the first in \<open>restore_timers\<close>,
  the first is not cancelled; both are pending, and when both have slept each turns the
  lights off and fires the restoration-cancelled event.
\<close>

theorem rearm_fires_twice:
  "restore_timers
     (run [StateChanged example_host ''binary_sensor.m'' (Some ''off''),
           StateChanged example_host ''binary_sensor.m'' (Some ''unavailable'')]
        example_manager) = [(''binary_sensor.m'', 1)] \<and>
   tasks
     (run [StateChanged example_host ''binary_sensor.m'' (Some ''off''),
           StateChanged example_host ''binary_sensor.m'' (Some ''unavailable'')]
        example_manager) =
     [\<lparr>coro = DelayTimer ''binary_sensor.m'', phase = Sleeping, cancel_requested = False\<rparr>,
      \<lparr>coro = DelayTimer ''binary_sensor.m'', phase = Sleeping, cancel_requested = False\<rparr>] \<and>
   effects
     (run [StateChanged example_host ''binary_sensor.m'' (Some ''off''),
           StateChanged example_host ''binary_sensor.m'' (Some ''unavailable''),
           Wake 0 Elapsed, Wake 0 Returned, Wake 0 Returned,
           Wake 1 Elapsed, Wake 1 Returned, Wake 1 Returned]
        example_manager) =
     [TurnOff ''light.a'', TurnOff ''light.b'', Fire (RestorationCancelled ''hall''),
      TurnOff ''light.a'', TurnOff ''light.b'', Fire (RestorationCancelled ''hall'')]"
  by (simp add: example_manager_eq handle_motion_def handle_motion_change_def
      STATE_ON_def get_delay_def example_config_def create_task_def timer_eval)

section \<open>Disabling with a timer that is not stored\<close>

text \<open>
  C7 (what the code does): after two events without motion for the same sensor two
  timers are pending and only the second is stored. Disabling the rule cancels the stored
  one and empties \<open>restore_timers\<close>; the first timer is not cancelled, and when it has
  slept it turns the lights off and fires the restoration-cancelled event although the
  rule is disabled.
\<close>

theorem disable_misses_unstored_timer:
  "tasks
     (run [StateChanged example_host ''binary_sensor.m'' (Some ''off''),
           StateChanged example_host ''binary_sensor.m'' (Some ''unavailable''),
           Disable None]
        example_manager) =
     [\<lparr>coro = DelayTimer ''binary_sensor.m'', phase = Sleeping, cancel_requested = False\<rparr>,
      \<lparr>coro = DelayTimer ''binary_sensor.m'', phase = Sleeping, cancel_requested = True\<rparr>] \<and>
   \<not> enabled
     (run [StateChanged example_host ''binary_sensor.m'' (Some ''off''),
           StateChanged example_host ''binary_sensor.m'' (Some ''unavailable''),
           Disable None]
        example_manager) \<and>
   effects
     (run [StateChanged example_host ''binary_sensor.m'' (Some ''off''),
           StateChanged example_host ''binary_sensor.m'' (Some ''unavailable''),
           Disable None]
        example_manager) = [] \<and>
   effects
     (run [StateChanged example_host ''binary_sensor.m'' (Some ''off''),
           StateChanged example_host ''binary_sensor.m'' (Some ''unavailable''),
           Disable None,
           Wake 1 Elapsed, Wake 0 Elapsed, Wake 0 Returned, Wake 0 Returned]
        example_manager) =
     [TurnOff ''light.a'', TurnOff ''light.b'', Fire (RestorationCancelled ''hall'')]"
  by (simp add: example_manager_eq handle_motion_def handle_motion_change_def
      STATE_ON_def get_delay_def example_config_def create_task_def timer_eval
      handle_disable_def other_area_def cancel_all_def cancel_def)


end
